theory Spec2Isabelle
  imports Main
begin

section \<open>PdfEngine over an explicit file system\<close>

text \<open>
  The three operations of \<^verbatim>\<open>app/pdf_engine.py\<close> (\<^verbatim>\<open>merge_pdfs\<close>, \<^verbatim>\<open>split_pdf\<close>,
  \<^verbatim>\<open>pdf_to_docx\<close>) are embedded as functions that take the state of the world and
  return the outcome (an exception or a value) together with the new world. The
  document engine (PyMuPDF, pdf2docx) and \<^verbatim>\<open>os.path\<close> are libraries outside the
  repository: what they do on a well-formed call is modelled from their documentation,
  and where they may fail for reasons the program cannot see, the failure is a parameter
  of the environment.
\<close>

subsection \<open>Exceptions\<close>

type_synonym path = string

text \<open>Opaque page content.\<close>

type_synonym page = nat

text \<open>
  The Python exceptions the engine module raises or meets. \<open>RuntimeError msg cause\<close> is
  \<^verbatim>\<open>raise RuntimeError(msg) from cause\<close>; \<open>EngineError\<close> stands for any exception raised
  inside the external libraries.
\<close>

datatype exn =
    ValueError string
  | FileNotFoundError string
  | EngineError string
  | RuntimeError string exn

text \<open>\<^verbatim>\<open>str(exc)\<close>: each exception is built from a single message argument.\<close>

fun str_exc :: "exn \<Rightarrow> string" where
  "str_exc (ValueError m) = m"
| "str_exc (FileNotFoundError m) = m"
| "str_exc (EngineError m) = m"
| "str_exc (RuntimeError m c) = m"

text \<open>\<^verbatim>\<open>str(n)\<close> for a Python integer, as the f-strings of the module format it.\<close>

definition digit_char :: "nat \<Rightarrow> char" where
  "digit_char d = ''0123456789'' ! d"

function str_nat :: "nat \<Rightarrow> string" where
  "str_nat n = (if n < 10 then [digit_char n] else str_nat (n div 10) @ [digit_char (n mod 10)])"
  by pat_completeness auto
termination
  by (relation "measure id") auto

declare str_nat.simps [simp del]

definition str_int :: "int \<Rightarrow> string" where
  "str_int i = (if i < 0 then CHR ''-'' # str_nat (nat (- i)) else str_nat (nat i))"

subsection \<open>The world: files, directories, open handles, I/O trace\<close>

text \<open>
  What a path holds: a PDF document that the engine can read (its pages), a DOCX
  document, or bytes that are no complete document (a foreign, truncated or corrupt
  file).
\<close>

datatype fnode = PdfFile "page list" | DocxFile "page list" | Damaged

datatype resource = SrcDoc path | NewDoc | Conv path

datatype event =
    EvExists path
  | EvIsDir path
  | EvOpen path
  | EvOpenNew
  | EvSave path
  | EvConvert path path
  | EvClose resource

record world =
  files :: "path \<Rightarrow> fnode option"
  dirs :: "path \<Rightarrow> bool"
  held :: "resource list"
  trace :: "event list"

text \<open>
  A failure inside the engine's \<^verbatim>\<open>save\<close> or \<^verbatim>\<open>convert\<close>: the message of the exception
  and what the call left at the output path (\<open>None\<close>: it left the path as it was).
\<close>

datatype fault = Fault string "fnode option"

text \<open>
  The parts of the environment the program does not control: \<^verbatim>\<open>os.path.abspath\<close> and
  \<^verbatim>\<open>os.path.dirname\<close> (they depend on the platform and the working directory); what
  the engine makes of a file that is no PDF (the pages it reads from it, or \<open>None\<close> when
  it cannot open it); the messages of the engine's exceptions when a file cannot be
  opened and when pages cannot be inserted; and whether the engine's \<^verbatim>\<open>save\<close> and
  \<^verbatim>\<open>convert\<close> fail.
\<close>

record env =
  abspath :: "path \<Rightarrow> path"
  dirname :: "path \<Rightarrow> path"
  open_foreign :: "fnode \<Rightarrow> page list option"
  open_error :: "path \<Rightarrow> string"
  insert_error :: string
  save_fault :: "page list \<Rightarrow> path \<Rightarrow> fault option"
  convert_fault :: "path \<Rightarrow> path \<Rightarrow> fault option"

subsection \<open>Library calls\<close>

definition log_event :: "event \<Rightarrow> world \<Rightarrow> world" where
  "log_event ev w = w\<lparr>trace := trace w @ [ev]\<rparr>"

text \<open>\<^verbatim>\<open>os.path.exists\<close> is true of files and of directories.\<close>

definition os_path_exists :: "path \<Rightarrow> world \<Rightarrow> bool \<times> world" where
  "os_path_exists p w = (files w p \<noteq> None \<or> dirs w p, log_event (EvExists p) w)"

definition os_path_isdir :: "path \<Rightarrow> world \<Rightarrow> bool \<times> world" where
  "os_path_isdir p w = (dirs w p, log_event (EvIsDir p) w)"

text \<open>\<^verbatim>\<open>fitz.open()\<close>: a new empty document.\<close>

definition fitz_open_new :: "world \<Rightarrow> page list \<times> world" where
  "fitz_open_new w = ([], (log_event EvOpenNew w)\<lparr>held := NewDoc # held w\<rparr>)"

text \<open>
  The pages the engine reads from a file: those of a PDF, and for any other file what
  the environment says.
\<close>

definition engine_pages :: "env \<Rightarrow> fnode \<Rightarrow> page list option" where
  "engine_pages E node = (case node of PdfFile ps \<Rightarrow> Some ps | _ \<Rightarrow> open_foreign E node)"

text \<open>
  \<^verbatim>\<open>fitz.open(path)\<close>: the document the engine reads from the file at the path. It
  raises when there is no file there (the path names a directory) or the engine cannot
  open the file.
\<close>

definition fitz_open :: "env \<Rightarrow> path \<Rightarrow> world \<Rightarrow> (exn + page list) \<times> world" where
  "fitz_open E p w =
     (case files w p of
        None \<Rightarrow> (Inl (EngineError (open_error E p)), log_event (EvOpen p) w)
      | Some node \<Rightarrow>
          (case engine_pages E node of
             None \<Rightarrow> (Inl (EngineError (open_error E p)), log_event (EvOpen p) w)
           | Some ps \<Rightarrow>
               (Inr ps, (log_event (EvOpen p) w)\<lparr>held := SrcDoc p # held w\<rparr>)))"

text \<open>\<^verbatim>\<open>doc.close()\<close>, also what leaving a \<^verbatim>\<open>with\<close> block does.\<close>

definition doc_close :: "resource \<Rightarrow> world \<Rightarrow> world" where
  "doc_close r w = (log_event (EvClose r) w)\<lparr>held := remove1 r (held w)\<rparr>"

text \<open>
  \<^verbatim>\<open>doc.insert_pdf(src, from_page, to_page)\<close> appends pages of \<open>src\<close> to \<open>doc\<close>. On a
  source without pages the engine raises. Otherwise the page numbers are 0-based and
  inclusive and both default to \<open>-1\<close>, and the engine normalises them: \<open>from_page\<close> is
  raised to 0 and lowered to the last page, a negative \<open>to_page\<close> is the last page and a
  larger one is lowered to it; \<open>from_page > to_page\<close> copies in reverse order.
\<close>

definition insert_pdf :: "env \<Rightarrow> page list \<Rightarrow> page list \<Rightarrow> int \<Rightarrow> int \<Rightarrow> exn + page list" where
  "insert_pdf E doc src from_page to_page =
     (if src = [] then Inl (EngineError (insert_error E))
      else let n = int (length src);
               fp = min (max from_page 0) (n - 1);
               tp = (if to_page < 0 then n - 1 else min to_page (n - 1))
           in if fp \<le> tp then Inr (doc @ take (nat (tp - fp + 1)) (drop (nat fp) src))
              else Inr (doc @ rev (take (nat (fp - tp + 1)) (drop (nat tp) src))))"

text \<open>
  \<^verbatim>\<open>doc.save(path)\<close>: writes the document at the path unless the engine fails. The
  path is taken to name a file or nothing; the directories are left as they are.
\<close>

definition doc_save :: "env \<Rightarrow> page list \<Rightarrow> path \<Rightarrow> world \<Rightarrow> (exn + unit) \<times> world" where
  "doc_save E doc p w =
     (let w1 = log_event (EvSave p) w in
      case save_fault E doc p of
        None \<Rightarrow> (Inr (), w1\<lparr>files := (files w1)(p \<mapsto> PdfFile doc)\<rparr>)
      | Some (Fault msg None) \<Rightarrow> (Inl (EngineError msg), w1)
      | Some (Fault msg (Some left)) \<Rightarrow>
          (Inl (EngineError msg), w1\<lparr>files := (files w1)(p \<mapsto> left)\<rparr>))"

text \<open>
  \<^verbatim>\<open>Converter(input_file)\<close> of pdf2docx opens the PDF with the engine; the converter is
  modelled on PDF input, which is what the program hands to it.
\<close>

definition converter_open :: "env \<Rightarrow> path \<Rightarrow> world \<Rightarrow> (exn + page list) \<times> world" where
  "converter_open E p w =
     (case files w p of
        Some (PdfFile ps) \<Rightarrow> (Inr ps, (log_event (EvOpen p) w)\<lparr>held := Conv p # held w\<rparr>)
      | _ \<Rightarrow> (Inl (EngineError (open_error E p)), log_event (EvOpen p) w))"

text \<open>\<^verbatim>\<open>cv.convert(output_path)\<close>: writes the DOCX of all pages unless the converter fails.\<close>

definition converter_convert ::
  "env \<Rightarrow> page list \<Rightarrow> path \<Rightarrow> path \<Rightarrow> world \<Rightarrow> (exn + unit) \<times> world" where
  "converter_convert E cv input_file output_path w =
     (let w1 = log_event (EvConvert input_file output_path) w in
      case convert_fault E input_file output_path of
        None \<Rightarrow> (Inr (), w1\<lparr>files := (files w1)(output_path \<mapsto> DocxFile cv)\<rparr>)
      | Some (Fault msg None) \<Rightarrow> (Inl (EngineError msg), w1)
      | Some (Fault msg (Some left)) \<Rightarrow>
          (Inl (EngineError msg), w1\<lparr>files := (files w1)(output_path \<mapsto> left)\<rparr>))"

subsection \<open>The output directory check\<close>

text \<open>
  The same three lines stand in each operation (46-48, 98-102, 126-130):
  \<^verbatim>\<open>output_dir = os.path.dirname(os.path.abspath(output_path)) or "."\<close>, then
  \<^verbatim>\<open>FileNotFoundError\<close> unless \<^verbatim>\<open>os.path.isdir(output_dir)\<close>.
\<close>

definition output_dir_of :: "env \<Rightarrow> path \<Rightarrow> path" where
  "output_dir_of E output_path =
     (let d = dirname E (abspath E output_path) in if d = [] then ''.'' else d)"

definition check_output_dir :: "env \<Rightarrow> path \<Rightarrow> world \<Rightarrow> (exn + unit) \<times> world" where
  "check_output_dir E output_path w =
     (let output_dir = output_dir_of E output_path in
      case os_path_isdir output_dir w of
        (isd, w1) \<Rightarrow>
          if \<not> isd
          then (Inl (FileNotFoundError (''Output directory does not exist: '' @ output_dir)), w1)
          else (Inr (), w1))"

subsection \<open>merge_pdfs\<close>

text \<open>
  The \<^verbatim>\<open>for path in input_files\<close> loop (lines 37-43), \<open>merged\<close> being the accumulator.
  An exception of \<^verbatim>\<open>insert_pdf\<close> leaves the \<^verbatim>\<open>with\<close> block, which closes the source.
\<close>

fun merge_loop ::
  "env \<Rightarrow> path list \<Rightarrow> page list \<Rightarrow> world \<Rightarrow> (exn + page list) \<times> world" where
  "merge_loop E [] merged w = (Inr merged, w)"
| "merge_loop E (p # rest) merged w =
     (case os_path_exists p w of
        (ex, w1) \<Rightarrow>
          if \<not> ex then (Inl (FileNotFoundError (''File not found: '' @ p)), w1)
          else (case fitz_open E p w1 of
                  (Inl e, w2) \<Rightarrow> (Inl e, w2)
                | (Inr src, w2) \<Rightarrow>
                    (case insert_pdf E merged src (- 1) (- 1) of
                       Inl e \<Rightarrow> (Inl e, doc_close (SrcDoc p) w2)
                     | Inr merged' \<Rightarrow> merge_loop E rest merged' (doc_close (SrcDoc p) w2))))"

text \<open>The body of the \<^verbatim>\<open>try\<close> (lines 37-50).\<close>

definition merge_try :: "env \<Rightarrow> path list \<Rightarrow> path \<Rightarrow> page list \<Rightarrow> world \<Rightarrow> (exn + unit) \<times> world" where
  "merge_try E input_files output_path merged0 w =
     (case merge_loop E input_files merged0 w of
        (Inl e, w1) \<Rightarrow> (Inl e, w1)
      | (Inr merged, w1) \<Rightarrow>
          (case check_output_dir E output_path w1 of
             (Inl e, w2) \<Rightarrow> (Inl e, w2)
           | (Inr u, w2) \<Rightarrow> doc_save E merged output_path w2))"

text \<open>
  The whole function: the emptiness test before anything else, then the new document,
  the \<^verbatim>\<open>try\<close>, the \<^verbatim>\<open>except Exception\<close> that wraps, and the \<^verbatim>\<open>finally\<close> that closes.
\<close>

definition merge_pdfs :: "env \<Rightarrow> path list \<Rightarrow> path \<Rightarrow> world \<Rightarrow> (exn + unit) \<times> world" where
  "merge_pdfs E input_files output_path w =
     (if input_files = [] then (Inl (ValueError ''there is no input files provided to merge.''), w)
      else (case fitz_open_new w of
              (merged0, w0) \<Rightarrow>
                (case merge_try E input_files output_path merged0 w0 of
                   (Inl exc, w1) \<Rightarrow>
                     (Inl (RuntimeError (''Failed to merge PDFs: '' @ str_exc exc) exc),
                      doc_close NewDoc w1)
                 | (Inr u, w1) \<Rightarrow> (Inr u, doc_close NewDoc w1))))"

subsection \<open>split_pdf\<close>

text \<open>The three range checks (lines 80-87), in the order of the source.\<close>

definition validate_page_range :: "int \<Rightarrow> int \<Rightarrow> int \<Rightarrow> exn option" where
  "validate_page_range start_page end_page total_pages =
     (if start_page < 1 \<or> end_page < 1 then Some (ValueError ''Page numbers must be >= 1.'')
      else if start_page > end_page
      then Some (ValueError ''Start page cannot be greater than end page.'')
      else if end_page > total_pages
      then Some (ValueError (''End page '' @ str_int end_page
                   @ '' exceeds document page count '' @ str_int total_pages @ ''.''))
      else None)"

text \<open>The inner \<^verbatim>\<open>try\<close> (lines 92-104), \<open>new_doc\<close> being the new empty document.\<close>

definition split_inner ::
  "env \<Rightarrow> page list \<Rightarrow> page list \<Rightarrow> int \<Rightarrow> int \<Rightarrow> path \<Rightarrow> world \<Rightarrow> (exn + unit) \<times> world" where
  "split_inner E new_doc src start_page end_page output_path w =
     (case insert_pdf E new_doc src (start_page - 1) (end_page - 1) of
        Inl e \<Rightarrow> (Inl e, w)
      | Inr new_doc' \<Rightarrow>
          (case check_output_dir E output_path w of
             (Inl e, w1) \<Rightarrow> (Inl e, w1)
           | (Inr u, w1) \<Rightarrow> doc_save E new_doc' output_path w1))"

text \<open>The body of the \<^verbatim>\<open>with\<close> block (lines 77-106).\<close>

definition split_with :: "env \<Rightarrow> page list \<Rightarrow> int \<Rightarrow> int \<Rightarrow> path \<Rightarrow> world \<Rightarrow> (exn + unit) \<times> world" where
  "split_with E src start_page end_page output_path w =
     (let total_pages = int (length src) in
      case validate_page_range start_page end_page total_pages of
        Some e \<Rightarrow> (Inl e, w)
      | None \<Rightarrow>
          (case fitz_open_new w of
             (new_doc, w1) \<Rightarrow>
               (case split_inner E new_doc src start_page end_page output_path w1 of
                  (r, w2) \<Rightarrow> (r, doc_close NewDoc w2))))"

text \<open>The body of the outer \<^verbatim>\<open>try\<close> (lines 76-106): open, run the block, close.\<close>

definition split_try :: "env \<Rightarrow> path \<Rightarrow> int \<Rightarrow> int \<Rightarrow> path \<Rightarrow> world \<Rightarrow> (exn + unit) \<times> world" where
  "split_try E input_file start_page end_page output_path w =
     (case fitz_open E input_file w of
        (Inl e, w1) \<Rightarrow> (Inl e, w1)
      | (Inr src, w1) \<Rightarrow>
          (case split_with E src start_page end_page output_path w1 of
             (r, w2) \<Rightarrow> (r, doc_close (SrcDoc input_file) w2)))"

definition split_pdf :: "env \<Rightarrow> path \<Rightarrow> int \<Rightarrow> int \<Rightarrow> path \<Rightarrow> world \<Rightarrow> (exn + unit) \<times> world" where
  "split_pdf E input_file start_page end_page output_path w =
     (case os_path_exists input_file w of
        (ex, w1) \<Rightarrow>
          if \<not> ex then (Inl (FileNotFoundError (''Source file not found: '' @ input_file)), w1)
          else (case split_try E input_file start_page end_page output_path w1 of
                  (Inl exc, w2) \<Rightarrow>
                    (Inl (RuntimeError (''Failed to split PDF: '' @ str_exc exc) exc), w2)
                | (Inr u, w2) \<Rightarrow> (Inr u, w2)))"

subsection \<open>pdf_to_docx\<close>

text \<open>
  The body of the \<^verbatim>\<open>try\<close> (lines 125-135). \<^verbatim>\<open>cv.close()\<close> is the statement after
  \<^verbatim>\<open>cv.convert\<close>: it runs only when the conversion returns.
\<close>

definition pdf_to_docx_try :: "env \<Rightarrow> path \<Rightarrow> path \<Rightarrow> world \<Rightarrow> (exn + unit) \<times> world" where
  "pdf_to_docx_try E input_file output_path w =
     (case check_output_dir E output_path w of
        (Inl e, w1) \<Rightarrow> (Inl e, w1)
      | (Inr u, w1) \<Rightarrow>
          (case converter_open E input_file w1 of
             (Inl e, w2) \<Rightarrow> (Inl e, w2)
           | (Inr cv, w2) \<Rightarrow>
               (case converter_convert E cv input_file output_path w2 of
                  (Inl e, w3) \<Rightarrow> (Inl e, w3)
                | (Inr u', w3) \<Rightarrow> (Inr (), doc_close (Conv input_file) w3))))"

definition pdf_to_docx :: "env \<Rightarrow> path \<Rightarrow> path \<Rightarrow> world \<Rightarrow> (exn + unit) \<times> world" where
  "pdf_to_docx E input_file output_path w =
     (case os_path_exists input_file w of
        (ex, w1) \<Rightarrow>
          if \<not> ex then (Inl (FileNotFoundError (''Source file not found: '' @ input_file)), w1)
          else (case pdf_to_docx_try E input_file output_path w1 of
                  (Inl exc, w2) \<Rightarrow>
                    (Inl (RuntimeError (''Failed to convert PDF to DOCX: '' @ str_exc exc) exc), w2)
                | (Inr u, w2) \<Rightarrow> (Inr u, w2)))"

subsection \<open>Auxiliary definitions for the statements\<close>

text \<open>The I/O events of a run of the merge loop in which every file exists and opens.\<close>

definition loop_events :: "path list \<Rightarrow> event list" where
  "loop_events ps = concat (map (\<lambda>p. [EvExists p, EvOpen p, EvClose (SrcDoc p)]) ps)"

text \<open>
  A concrete environment for the examples: \<^verbatim>\<open>posixpath.dirname\<close> (the part before the
  last slash, trailing slashes stripped unless it consists of slashes only), and
  \<^verbatim>\<open>abspath\<close> on paths that are already absolute and normalised, where it is the
  identity. In both the engine opens PDF files only and the messages of its
  exceptions are placeholders. In \<open>example_env\<close> \<^verbatim>\<open>save\<close> and \<^verbatim>\<open>convert\<close> never fail; in
  \<open>failing_env\<close> every \<^verbatim>\<open>save\<close> fails after leaving an incomplete file, and every
  conversion fails.
\<close>

definition posix_dirname :: "path \<Rightarrow> path" where
  "posix_dirname p =
     (let head = rev (dropWhile (\<lambda>c. c \<noteq> CHR ''/'') (rev p))
      in if head \<noteq> [] \<and> filter (\<lambda>c. c \<noteq> CHR ''/'') head \<noteq> []
         then rev (dropWhile (\<lambda>c. c = CHR ''/'') (rev head))
         else head)"

definition example_env :: env where
  "example_env =
     \<lparr>abspath = (\<lambda>p. p), dirname = posix_dirname,
      open_foreign = (\<lambda>node. None),
      open_error = (\<lambda>p. ''cannot open '' @ p),
      insert_error = ''source document has no pages'',
      save_fault = (\<lambda>doc p. None), convert_fault = (\<lambda>i p. None)\<rparr>"

definition failing_env :: env where
  "failing_env =
     \<lparr>abspath = (\<lambda>p. p), dirname = posix_dirname,
      open_foreign = (\<lambda>node. None),
      open_error = (\<lambda>p. ''cannot open '' @ p),
      insert_error = ''source document has no pages'',
      save_fault = (\<lambda>doc p. Some (Fault ''No space left on device'' (Some Damaged))),
      convert_fault = (\<lambda>i p. Some (Fault ''conversion failed'' None))\<rparr>"

text \<open>
  A directory \<^verbatim>\<open>/data\<close> with five PDF files: A (pages 1, 2, 3), B (pages 4, 5), a
  ten-page document, a five-page document, and a document with no pages. No handle is open, nothing has
  happened yet.
\<close>

definition example_world :: world where
  "example_world =
     \<lparr>files = [''/data/A.pdf'' \<mapsto> PdfFile [1, 2, 3],
               ''/data/B.pdf'' \<mapsto> PdfFile [4, 5],
               ''/data/doc.pdf'' \<mapsto> PdfFile [11, 12, 13, 14, 15, 16, 17, 18, 19, 20],
               ''/data/five.pdf'' \<mapsto> PdfFile [21, 22, 23, 24, 25],
               ''/data/empty.pdf'' \<mapsto> PdfFile []],
      dirs = (\<lambda>p. p = ''/data''),
      held = [],
      trace = []\<rparr>"

section \<open>Lemmas about the library calls and the three operations\<close>

lemmas lib_defs = log_event_def os_path_exists_def os_path_isdir_def fitz_open_new_def
  engine_pages_def fitz_open_def doc_close_def doc_save_def converter_open_def
  converter_convert_def check_output_dir_def

lemmas op_defs = merge_pdfs_def merge_try_def split_pdf_def split_try_def split_with_def
  split_inner_def pdf_to_docx_def pdf_to_docx_try_def

subsection \<open>The example environment\<close>

lemma example_dirs [simp]:
  "output_dir_of example_env ''/data/out.pdf'' = ''/data''"
  "output_dir_of example_env ''/data/part.pdf'' = ''/data''"
  "output_dir_of example_env ''/data/out.docx'' = ''/data''"
  "output_dir_of example_env ''/nodir/out.pdf'' = ''/nodir''"
  "output_dir_of failing_env ''/data/out.pdf'' = ''/data''"
  "output_dir_of failing_env ''/data/out.docx'' = ''/data''"
  by (simp_all add: output_dir_of_def example_env_def failing_env_def posix_dirname_def)

lemma example_env_faults [simp]:
  "save_fault example_env doc p = None"
  "convert_fault example_env i p = None"
  by (simp_all add: example_env_def)

lemma failing_env_faults [simp]:
  "save_fault failing_env doc p = Some (Fault ''No space left on device'' (Some Damaged))"
  "convert_fault failing_env i p = Some (Fault ''conversion failed'' None)"
  by (simp_all add: failing_env_def)

subsection \<open>Page insertion\<close>

lemma insert_pdf_empty: "insert_pdf E doc [] from_page to_page = Inl (EngineError (insert_error E))"
  by (simp add: insert_pdf_def)

lemma insert_pdf_all: "src \<noteq> [] \<Longrightarrow> insert_pdf E doc src (- 1) (- 1) = Inr (doc @ src)"
  by (cases src) (simp_all add: insert_pdf_def Let_def)

lemma insert_pdf_range:
  assumes "1 \<le> s" "s \<le> e" "e \<le> int (length src)"
  shows "insert_pdf E doc src (s - 1) (e - 1)
           = Inr (doc @ take (nat (e - s + 1)) (drop (nat (s - 1)) src))"
proof -
  from assms have "src \<noteq> []" by auto
  with assms show ?thesis by (simp add: insert_pdf_def Let_def)
qed

lemma slice_pages:
  assumes "1 \<le> s" "s \<le> e" "e \<le> int (length src)"
  shows "take (nat (e - s + 1)) (drop (nat (s - 1)) src) = map (\<lambda>i. src ! nat (i - 1)) [s..e]"
proof (rule nth_equalityI)
  show "length (take (nat (e - s + 1)) (drop (nat (s - 1)) src))
          = length (map (\<lambda>i. src ! nat (i - 1)) [s..e])"
    using assms by simp
next
  fix i assume "i < length (take (nat (e - s + 1)) (drop (nat (s - 1)) src))"
  then have i: "int i < e - s + 1" using assms by simp
  have "[s..e] ! i = s + int i" using i by simp
  moreover have "nat (s - 1) + i = nat (s + int i - 1)" using assms by simp
  ultimately show "take (nat (e - s + 1)) (drop (nat (s - 1)) src) ! i
          = map (\<lambda>i. src ! nat (i - 1)) [s..e] ! i"
    using i assms by simp
qed

lemma upto_pages_all: "map (\<lambda>i. src ! nat (i - 1)) [1..int (length src)] = src"
proof (cases "src = []")
  case True
  then show ?thesis by simp
next
  case False
  then have "1 \<le> int (length src)" by (cases src) simp_all
  from slice_pages [OF _ this, of src] show ?thesis by simp
qed

subsection \<open>The range checks\<close>

lemma validate_page_range_None:
  "validate_page_range s e t = None \<longleftrightarrow> 1 \<le> s \<and> s \<le> e \<and> e \<le> t"
  by (auto simp: validate_page_range_def)

lemma validate_page_range_cases:
  "(validate_page_range start_page end_page total_pages
      = Some (ValueError ''Page numbers must be >= 1.'')
      \<longleftrightarrow> start_page < 1 \<or> end_page < 1) \<and>
   (validate_page_range start_page end_page total_pages
      = Some (ValueError ''Start page cannot be greater than end page.'')
      \<longleftrightarrow> 1 \<le> start_page \<and> 1 \<le> end_page \<and> end_page < start_page) \<and>
   (validate_page_range start_page end_page total_pages
      = Some (ValueError (''End page '' @ str_int end_page
                @ '' exceeds document page count '' @ str_int total_pages @ ''.''))
      \<longleftrightarrow> 1 \<le> start_page \<and> start_page \<le> end_page \<and> total_pages < end_page) \<and>
   (validate_page_range start_page end_page total_pages = None
      \<longleftrightarrow> 1 \<le> start_page \<and> start_page \<le> end_page \<and> end_page \<le> total_pages) \<and>
   validate_page_range 0 0 5 = Some (ValueError ''Page numbers must be >= 1.'')"
  by (simp add: validate_page_range_def)

subsection \<open>Output directory check and save\<close>

lemma check_output_dir_ok:
  "dirs w (output_dir_of E output_path) \<Longrightarrow>
   check_output_dir E output_path w
     = (Inr (), w\<lparr>trace := trace w @ [EvIsDir (output_dir_of E output_path)]\<rparr>)"
  by (simp add: lib_defs Let_def)

lemma check_output_dir_missing:
  "\<not> dirs w (output_dir_of E output_path) \<Longrightarrow>
   check_output_dir E output_path w
     = (Inl (FileNotFoundError (''Output directory does not exist: '' @ output_dir_of E output_path)),
        w\<lparr>trace := trace w @ [EvIsDir (output_dir_of E output_path)]\<rparr>)"
  by (simp add: lib_defs Let_def)

lemma check_output_dir_frame:
  "check_output_dir E output_path w = (r, w') \<Longrightarrow>
   files w' = files w \<and> held w' = held w \<and> dirs w' = dirs w"
  by (auto simp: lib_defs Let_def split: if_splits)

lemma doc_save_ok:
  "save_fault E doc p = None \<Longrightarrow>
   doc_save E doc p w
     = (Inr (), w\<lparr>files := (files w)(p \<mapsto> PdfFile doc), trace := trace w @ [EvSave p]\<rparr>)"
  by (simp add: lib_defs Let_def)

lemma doc_save_cases:
  "doc_save E doc p w = (r, w') \<Longrightarrow>
     held w' = held w \<and> dirs w' = dirs w \<and>
     ((r = Inr () \<and> save_fault E doc p = None \<and> files w' = (files w)(p \<mapsto> PdfFile doc))
      \<or> (\<exists>msg. r = Inl (EngineError msg) \<and> save_fault E doc p = Some (Fault msg None)
              \<and> files w' = files w)
      \<or> (\<exists>msg left. r = Inl (EngineError msg) \<and> save_fault E doc p = Some (Fault msg (Some left))
              \<and> files w' = (files w)(p \<mapsto> left)))"
  by (auto simp: lib_defs Let_def split: option.splits fault.splits)

lemma converter_convert_cases:
  "converter_convert E cv input_file output_path w = (r, w') \<Longrightarrow>
     held w' = held w \<and> dirs w' = dirs w \<and>
     ((r = Inr () \<and> convert_fault E input_file output_path = None
         \<and> files w' = (files w)(output_path \<mapsto> DocxFile cv))
      \<or> (\<exists>msg. r = Inl (EngineError msg)
              \<and> convert_fault E input_file output_path = Some (Fault msg None)
              \<and> files w' = files w)
      \<or> (\<exists>msg left. r = Inl (EngineError msg)
              \<and> convert_fault E input_file output_path = Some (Fault msg (Some left))
              \<and> files w' = (files w)(output_path \<mapsto> left)))"
  by (auto simp: lib_defs Let_def split: option.splits fault.splits)

subsection \<open>The merge loop\<close>

lemma merge_loop_frame:
  "files (snd (merge_loop E ps acc w)) = files w \<and>
   dirs (snd (merge_loop E ps acc w)) = dirs w \<and>
   held (snd (merge_loop E ps acc w)) = held w"
proof (induction ps arbitrary: acc w)
  case Nil
  show ?case by simp
next
  case (Cons p ps)
  show ?case
    by (simp add: lib_defs Cons.IH split: option.splits sum.splits)
qed

lemma merge_loop_files:
  "merge_loop E ps acc w = (r, w') \<Longrightarrow> files w' = files w"
  using merge_loop_frame [of E ps acc w] by simp

lemma merge_loop_held:
  "merge_loop E ps acc w = (r, w') \<Longrightarrow> held w' = held w"
  using merge_loop_frame [of E ps acc w] by simp

lemma merge_loop_docs:
  assumes "map (files w) ps = map (\<lambda>d. Some (PdfFile d)) docs" and "[] \<notin> set docs"
  shows "merge_loop E ps acc w
           = (Inr (acc @ concat docs), w\<lparr>trace := trace w @ loop_events ps\<rparr>)"
  using assms
proof (induction ps arbitrary: acc w docs)
  case Nil
  then show ?case by (simp add: loop_events_def)
next
  case (Cons p ps)
  from Cons.prems obtain d ds where docs: "docs = d # ds" by (cases docs) auto
  from Cons.prems docs have pg: "files w p = Some (PdfFile d)"
    and rest: "map (files w) ps = map (\<lambda>d. Some (PdfFile d)) ds"
    and d: "d \<noteq> []" and ds: "[] \<notin> set ds" by auto
  let ?w' = "w\<lparr>trace := trace w @ [EvExists p, EvOpen p, EvClose (SrcDoc p)]\<rparr>"
  have step: "merge_loop E (p # ps) acc w = merge_loop E ps (acc @ d) ?w'"
    by (simp add: lib_defs pg insert_pdf_all [OF d])
  have "map (files ?w') ps = map (\<lambda>d. Some (PdfFile d)) ds" using rest by simp
  from Cons.IH [OF this ds, of "acc @ d"] show ?case
    unfolding step by (simp add: docs loop_events_def)
qed

subsection \<open>Successful runs\<close>

lemma merge_pdfs_ok:
  assumes nonempty: "input_files \<noteq> []"
    and docs: "map (files w) input_files = map (\<lambda>d. Some (PdfFile d)) docs"
    and pages: "[] \<notin> set docs"
    and dir: "dirs w (output_dir_of E output_path)"
    and engine: "save_fault E (concat docs) output_path = None"
  shows "merge_pdfs E input_files output_path w
           = (Inr (),
              w\<lparr>files := (files w)(output_path \<mapsto> PdfFile (concat docs)),
                trace := trace w @ [EvOpenNew] @ loop_events input_files
                           @ [EvIsDir (output_dir_of E output_path), EvSave output_path,
                              EvClose NewDoc]\<rparr>)"
proof -
  let ?w0 = "w\<lparr>trace := trace w @ [EvOpenNew], held := NewDoc # held w\<rparr>"
  have w0: "fitz_open_new w = ([], ?w0)" by (simp add: lib_defs)
  have "map (files ?w0) input_files = map (\<lambda>d. Some (PdfFile d)) docs" using docs by simp
  from merge_loop_docs [OF this pages, of E "[]"]
  have loop: "merge_loop E input_files [] ?w0
                = (Inr (concat docs), ?w0\<lparr>trace := trace ?w0 @ loop_events input_files\<rparr>)"
    by simp
  let ?w1 = "?w0\<lparr>trace := trace ?w0 @ loop_events input_files\<rparr>"
  have d1: "dirs ?w1 (output_dir_of E output_path)" using dir by simp
  have tr: "merge_try E input_files output_path [] ?w0
               = (Inr (), ?w1\<lparr>files := (files w)(output_path \<mapsto> PdfFile (concat docs)),
                    trace := trace ?w1 @ [EvIsDir (output_dir_of E output_path), EvSave output_path]\<rparr>)"
    unfolding merge_try_def loop
    by (simp add: check_output_dir_ok doc_save_ok dir engine)
  show ?thesis
    unfolding merge_pdfs_def w0 using nonempty
    by (simp add: tr) (simp add: lib_defs)
qed

lemma split_pdf_ok:
  assumes src: "files w input_file = Some (PdfFile src)"
    and range: "1 \<le> start_page" "start_page \<le> end_page" "end_page \<le> int (length src)"
    and dir: "dirs w (output_dir_of E output_path)"
    and engine: "save_fault E (map (\<lambda>i. src ! nat (i - 1)) [start_page..end_page]) output_path = None"
  shows "split_pdf E input_file start_page end_page output_path w
           = (Inr (),
              w\<lparr>files := (files w)(output_path \<mapsto>
                           PdfFile (map (\<lambda>i. src ! nat (i - 1)) [start_page..end_page])),
                trace := trace w @ [EvExists input_file, EvOpen input_file, EvOpenNew,
                           EvIsDir (output_dir_of E output_path), EvSave output_path,
                           EvClose NewDoc, EvClose (SrcDoc input_file)]\<rparr>)"
proof -
  have v: "validate_page_range start_page end_page (int (length src)) = None"
    using range by (simp add: validate_page_range_None)
  have ins: "insert_pdf E [] src (start_page - 1) (end_page - 1)
               = Inr (map (\<lambda>i. src ! nat (i - 1)) [start_page..end_page])"
    using insert_pdf_range [OF range, of E "[]"] slice_pages [OF range] by simp
  have inner: "\<And>w1. dirs w1 (output_dir_of E output_path) \<Longrightarrow>
      split_inner E [] src start_page end_page output_path w1
        = (Inr (), w1\<lparr>files := (files w1)(output_path \<mapsto>
                           PdfFile (map (\<lambda>i. src ! nat (i - 1)) [start_page..end_page])),
                    trace := trace w1 @ [EvIsDir (output_dir_of E output_path), EvSave output_path]\<rparr>)"
    by (simp add: split_inner_def ins Let_def check_output_dir_ok doc_save_ok engine)
  show ?thesis
    by (simp add: split_pdf_def split_try_def split_with_def v inner dir
        os_path_exists_def engine_pages_def fitz_open_def fitz_open_new_def doc_close_def
        log_event_def src)
qed

lemma split_pdf_range_error:
  assumes src: "files w input_file = Some (PdfFile src)"
    and err: "validate_page_range start_page end_page (int (length src)) = Some err"
  shows "split_pdf E input_file start_page end_page output_path w
           = (Inl (RuntimeError (''Failed to split PDF: '' @ str_exc err) err),
              w\<lparr>trace := trace w @ [EvExists input_file, EvOpen input_file,
                                      EvClose (SrcDoc input_file)]\<rparr>)"
  by (simp add: split_pdf_def split_try_def split_with_def lib_defs src err)

subsection \<open>What each operation does to the files\<close>

lemma merge_try_files:
  assumes "merge_try E input_files output_path acc w = (r, w')"
  shows "(\<exists>doc. r = Inr () \<and> save_fault E doc output_path = None
             \<and> files w' = (files w)(output_path \<mapsto> PdfFile doc))
       \<or> (\<exists>e. r = Inl e \<and> files w' = files w)
       \<or> (\<exists>doc msg left. r = Inl (EngineError msg)
             \<and> save_fault E doc output_path = Some (Fault msg (Some left))
             \<and> files w' = (files w)(output_path \<mapsto> left))"
proof -
  obtain r1 w1 where loop: "merge_loop E input_files acc w = (r1, w1)" by (cases "merge_loop E input_files acc w")
  have f1: "files w1 = files w" using merge_loop_files [OF loop] .
  show ?thesis
  proof (cases r1)
    case (Inl e)
    with assms loop f1 show ?thesis by (auto simp: merge_try_def)
  next
    case (Inr merged)
    obtain r2 w2 where chk: "check_output_dir E output_path w1 = (r2, w2)"
      by (cases "check_output_dir E output_path w1")
    have f2: "files w2 = files w" using check_output_dir_frame [OF chk] f1 by simp
    show ?thesis
    proof (cases r2)
      case (Inl e)
      with assms loop chk Inr f2 show ?thesis by (auto simp: merge_try_def)
    next
      case (Inr u)
      with assms loop chk \<open>r1 = Inr merged\<close>
      have "doc_save E merged output_path w2 = (r, w')" by (simp add: merge_try_def)
      from doc_save_cases [OF this] f2 show ?thesis by auto
    qed
  qed
qed

lemma merge_pdfs_files:
  assumes "merge_pdfs E input_files output_path w = (r, w')"
  shows "(\<exists>doc. r = Inr () \<and> save_fault E doc output_path = None
             \<and> files w' = (files w)(output_path \<mapsto> PdfFile doc))
       \<or> (\<exists>e. r = Inl e \<and> files w' = files w)
       \<or> (\<exists>doc msg left. r = Inl (RuntimeError (''Failed to merge PDFs: '' @ msg) (EngineError msg))
             \<and> save_fault E doc output_path = Some (Fault msg (Some left))
             \<and> files w' = (files w)(output_path \<mapsto> left))"
proof (cases "input_files = []")
  case True
  with assms show ?thesis by (auto simp: merge_pdfs_def)
next
  case False
  obtain r1 w1 where tr: "merge_try E input_files output_path [] (snd (fitz_open_new w)) = (r1, w1)"
    by (cases "merge_try E input_files output_path [] (snd (fitz_open_new w))")
  have f0: "files (snd (fitz_open_new w)) = files w" by (simp add: lib_defs)
  have w': "w' = doc_close NewDoc w1" and r: "r = (case r1 of Inl exc \<Rightarrow> Inl (RuntimeError (''Failed to merge PDFs: '' @ str_exc exc) exc) | Inr u \<Rightarrow> Inr u)"
    using assms False tr by (auto simp: merge_pdfs_def fitz_open_new_def split: sum.splits)
  have fw: "files w' = files w1" by (simp add: w' lib_defs)
  from merge_try_files [OF tr] show ?thesis
    unfolding f0
  proof (elim disjE exE conjE)
    fix doc assume "r1 = Inr ()" "save_fault E doc output_path = None"
      "files w1 = (files w)(output_path \<mapsto> PdfFile doc)"
    then show ?thesis by (intro disjI1 exI [of _ doc]) (simp add: r fw)
  next
    fix e assume "r1 = Inl e" "files w1 = files w"
    then show ?thesis by (simp add: r fw)
  next
    fix doc msg left assume "r1 = Inl (EngineError msg)"
      "save_fault E doc output_path = Some (Fault msg (Some left))"
      "files w1 = (files w)(output_path \<mapsto> left)"
    then show ?thesis
      by (intro disjI2 exI [of _ doc] exI [of _ msg] exI [of _ left]) (simp add: r fw)
  qed
qed

lemma split_inner_files:
  assumes "split_inner E new_doc src s e output_path w = (r, w')"
  shows "(\<exists>doc. r = Inr () \<and> save_fault E doc output_path = None
             \<and> files w' = (files w)(output_path \<mapsto> PdfFile doc))
       \<or> (\<exists>ex. r = Inl ex \<and> files w' = files w)
       \<or> (\<exists>doc msg left. r = Inl (EngineError msg)
             \<and> save_fault E doc output_path = Some (Fault msg (Some left))
             \<and> files w' = (files w)(output_path \<mapsto> left))"
proof (cases "insert_pdf E new_doc src (s - 1) (e - 1)")
  case (Inl ex)
  with assms show ?thesis by (auto simp: split_inner_def)
next
  case ins: (Inr new_doc')
  obtain r2 w2 where chk: "check_output_dir E output_path w = (r2, w2)"
    by (cases "check_output_dir E output_path w")
  have f2: "files w2 = files w" using check_output_dir_frame [OF chk] by simp
  show ?thesis
  proof (cases r2)
    case (Inl ex)
    with assms chk f2 ins show ?thesis by (auto simp: split_inner_def)
  next
    case (Inr u)
    with assms chk ins
    have "doc_save E new_doc' output_path w2 = (r, w')"
      by (simp add: split_inner_def)
    from doc_save_cases [OF this] f2 show ?thesis by auto
  qed
qed

lemma split_try_files:
  assumes "split_try E input_file s e output_path w = (r, w')"
  shows "(\<exists>doc. r = Inr () \<and> save_fault E doc output_path = None
             \<and> files w' = (files w)(output_path \<mapsto> PdfFile doc))
       \<or> (\<exists>ex. r = Inl ex \<and> files w' = files w)
       \<or> (\<exists>doc msg left. r = Inl (EngineError msg)
             \<and> save_fault E doc output_path = Some (Fault msg (Some left))
             \<and> files w' = (files w)(output_path \<mapsto> left))"
proof (cases "fitz_open E input_file w")
  case (Pair ro w1)
  have f1: "files w1 = files w" using Pair
    by (auto simp: lib_defs split: option.splits fnode.splits sum.splits)
  show ?thesis
  proof (cases ro)
    case (Inl ex)
    with assms Pair f1 show ?thesis by (auto simp: split_try_def)
  next
    case (Inr src)
    show ?thesis
    proof (cases "validate_page_range s e (int (length src))")
      case (Some err)
      with assms Pair Inr f1 show ?thesis
        by (auto simp: split_try_def split_with_def lib_defs)
    next
      case None
      obtain r3 w3 where inner:
        "split_inner E [] src s e output_path (snd (fitz_open_new w1)) = (r3, w3)"
        by (cases "split_inner E [] src s e output_path (snd (fitz_open_new w1))")
      have f0: "files (snd (fitz_open_new w1)) = files w" by (simp add: lib_defs f1)
      have r: "r = r3" and w': "w' = doc_close (SrcDoc input_file) (doc_close NewDoc w3)"
        using assms Pair Inr None inner
        by (auto simp: split_try_def split_with_def fitz_open_new_def)
      have fw: "files w' = files w3" by (simp add: w' lib_defs)
      from split_inner_files [OF inner] show ?thesis
        unfolding f0 r fw .
    qed
  qed
qed

lemma split_pdf_files:
  assumes "split_pdf E input_file s e output_path w = (r, w')"
  shows "(\<exists>doc. r = Inr () \<and> save_fault E doc output_path = None
             \<and> files w' = (files w)(output_path \<mapsto> PdfFile doc))
       \<or> (\<exists>ex. r = Inl ex \<and> files w' = files w)
       \<or> (\<exists>doc msg left. r = Inl (RuntimeError (''Failed to split PDF: '' @ msg) (EngineError msg))
             \<and> save_fault E doc output_path = Some (Fault msg (Some left))
             \<and> files w' = (files w)(output_path \<mapsto> left))"
proof (cases "files w input_file \<noteq> None \<or> dirs w input_file")
  case False
  with assms show ?thesis by (auto simp: split_pdf_def lib_defs)
next
  case True
  obtain r1 w1 where tr:
    "split_try E input_file s e output_path (snd (os_path_exists input_file w)) = (r1, w1)"
    by (cases "split_try E input_file s e output_path (snd (os_path_exists input_file w))")
  have f0: "files (snd (os_path_exists input_file w)) = files w" by (simp add: lib_defs)
  have w': "w' = w1"
    and r: "r = (case r1 of Inl exc \<Rightarrow> Inl (RuntimeError (''Failed to split PDF: '' @ str_exc exc) exc)
                  | Inr u \<Rightarrow> Inr u)"
    using assms True tr by (auto simp: split_pdf_def os_path_exists_def split: sum.splits)
  from split_try_files [OF tr] show ?thesis
    unfolding f0
  proof (elim disjE exE conjE)
    fix doc assume "r1 = Inr ()" "save_fault E doc output_path = None"
      "files w1 = (files w)(output_path \<mapsto> PdfFile doc)"
    then show ?thesis by (intro disjI1 exI [of _ doc]) (simp add: r w')
  next
    fix ex assume "r1 = Inl ex" "files w1 = files w"
    then show ?thesis by (simp add: r w')
  next
    fix doc msg left assume "r1 = Inl (EngineError msg)"
      "save_fault E doc output_path = Some (Fault msg (Some left))"
      "files w1 = (files w)(output_path \<mapsto> left)"
    then show ?thesis
      by (intro disjI2 exI [of _ doc] exI [of _ msg] exI [of _ left]) (simp add: r w')
  qed
qed

lemma pdf_to_docx_try_files:
  assumes "pdf_to_docx_try E input_file output_path w = (r, w')"
  shows "(\<exists>doc. r = Inr () \<and> files w input_file = Some (PdfFile doc)
             \<and> convert_fault E input_file output_path = None
             \<and> files w' = (files w)(output_path \<mapsto> DocxFile doc))
       \<or> (\<exists>ex. r = Inl ex \<and> files w' = files w)
       \<or> (\<exists>msg left. r = Inl (EngineError msg)
             \<and> convert_fault E input_file output_path = Some (Fault msg (Some left))
             \<and> files w' = (files w)(output_path \<mapsto> left))"
proof -
  obtain r1 w1 where chk: "check_output_dir E output_path w = (r1, w1)"
    by (cases "check_output_dir E output_path w")
  have f1: "files w1 = files w" using check_output_dir_frame [OF chk] by simp
  show ?thesis
  proof (cases r1)
    case (Inl ex)
    with assms chk f1 show ?thesis by (auto simp: pdf_to_docx_try_def)
  next
    case u: (Inr u)
    obtain r2 w2 where opn: "converter_open E input_file w1 = (r2, w2)"
      by (cases "converter_open E input_file w1")
    have f2: "files w2 = files w" using opn f1
      by (auto simp: lib_defs split: option.splits fnode.splits sum.splits)
    show ?thesis
    proof (cases r2)
      case (Inl ex)
      with assms chk u opn f2 show ?thesis by (auto simp: pdf_to_docx_try_def)
    next
      case (Inr cv)
      have cv: "files w input_file = Some (PdfFile cv)" using opn Inr f1
        by (auto simp: lib_defs split: option.splits fnode.splits sum.splits)
      obtain r3 w3 where conv: "converter_convert E cv input_file output_path w2 = (r3, w3)"
        by (cases "converter_convert E cv input_file output_path w2")
      have rw: "(r, w') = (case r3 of Inl ex \<Rightarrow> (Inl ex, w3)
                            | Inr u' \<Rightarrow> (Inr (), doc_close (Conv input_file) w3))"
        using assms chk u opn Inr conv by (simp add: pdf_to_docx_try_def split: sum.splits)
      from converter_convert_cases [OF conv] f2 cv rw show ?thesis
        by (auto simp: lib_defs)
    qed
  qed
qed

lemma pdf_to_docx_files:
  assumes "pdf_to_docx E input_file output_path w = (r, w')"
  shows "(\<exists>doc. r = Inr () \<and> files w input_file = Some (PdfFile doc)
             \<and> convert_fault E input_file output_path = None
             \<and> files w' = (files w)(output_path \<mapsto> DocxFile doc))
       \<or> (\<exists>ex. r = Inl ex \<and> files w' = files w)
       \<or> (\<exists>msg left. r = Inl (RuntimeError (''Failed to convert PDF to DOCX: '' @ msg) (EngineError msg))
             \<and> convert_fault E input_file output_path = Some (Fault msg (Some left))
             \<and> files w' = (files w)(output_path \<mapsto> left))"
proof (cases "files w input_file \<noteq> None \<or> dirs w input_file")
  case False
  with assms show ?thesis by (auto simp: pdf_to_docx_def lib_defs)
next
  case True
  obtain r1 w1 where tr:
    "pdf_to_docx_try E input_file output_path (snd (os_path_exists input_file w)) = (r1, w1)"
    by (cases "pdf_to_docx_try E input_file output_path (snd (os_path_exists input_file w))")
  have f0: "files (snd (os_path_exists input_file w)) = files w" by (simp add: lib_defs)
  have w': "w' = w1"
    and r: "r = (case r1 of Inl exc \<Rightarrow> Inl (RuntimeError (''Failed to convert PDF to DOCX: '' @ str_exc exc) exc)
                  | Inr u \<Rightarrow> Inr u)"
    using assms True tr by (auto simp: pdf_to_docx_def os_path_exists_def split: sum.splits)
  from pdf_to_docx_try_files [OF tr] show ?thesis
    unfolding f0
  proof (elim disjE exE conjE)
    fix doc assume "r1 = Inr ()" "files w input_file = Some (PdfFile doc)"
      "convert_fault E input_file output_path = None"
      "files w1 = (files w)(output_path \<mapsto> DocxFile doc)"
    then show ?thesis by (intro disjI1 exI [of _ doc]) (simp add: r w')
  next
    fix ex assume "r1 = Inl ex" "files w1 = files w"
    then show ?thesis by (simp add: r w')
  next
    fix msg left assume "r1 = Inl (EngineError msg)"
      "convert_fault E input_file output_path = Some (Fault msg (Some left))"
      "files w1 = (files w)(output_path \<mapsto> left)"
    then show ?thesis
      by (intro disjI2 exI [of _ msg] exI [of _ left]) (simp add: r w')
  qed
qed

subsection \<open>Handles: merge and split release what they open\<close>

lemma merge_try_held:
  assumes "merge_try E input_files output_path acc w = (r, w')"
  shows "held w' = held w"
proof -
  obtain r1 w1 where loop: "merge_loop E input_files acc w = (r1, w1)"
    by (cases "merge_loop E input_files acc w")
  have h1: "held w1 = held w" using merge_loop_held [OF loop] .
  obtain r2 w2 where chk: "check_output_dir E output_path w1 = (r2, w2)"
    by (cases "check_output_dir E output_path w1")
  have h2: "held w2 = held w" using check_output_dir_frame [OF chk] h1 by simp
  show ?thesis
  proof (cases r1)
    case (Inl e)
    with assms loop h1 show ?thesis by (auto simp: merge_try_def)
  next
    case (Inr merged)
    show ?thesis
    proof (cases r2)
      case (Inl e)
      with assms loop chk Inr h2 show ?thesis by (auto simp: merge_try_def)
    next
      case u: (Inr u)
      with assms loop chk Inr
      have "doc_save E merged output_path w2 = (r, w')" by (simp add: merge_try_def)
      from doc_save_cases [OF this] h2 show ?thesis by simp
    qed
  qed
qed

lemma merge_pdfs_releases: "held (snd (merge_pdfs E input_files output_path w)) = held w"
proof (cases "input_files = []")
  case True
  then show ?thesis by (simp add: merge_pdfs_def)
next
  case False
  obtain r1 w1 where tr: "merge_try E input_files output_path [] (snd (fitz_open_new w)) = (r1, w1)"
    by (cases "merge_try E input_files output_path [] (snd (fitz_open_new w))")
  have h1: "held w1 = NewDoc # held w" using merge_try_held [OF tr] by (simp add: lib_defs)
  have "snd (merge_pdfs E input_files output_path w) = doc_close NewDoc w1"
    using False tr by (simp add: merge_pdfs_def fitz_open_new_def split: sum.splits)
  then show ?thesis by (simp add: doc_close_def log_event_def h1)
qed

lemma split_inner_held:
  assumes "split_inner E new_doc src s e output_path w = (r, w')"
  shows "held w' = held w"
proof (cases "insert_pdf E new_doc src (s - 1) (e - 1)")
  case (Inl ex)
  with assms show ?thesis by (auto simp: split_inner_def)
next
  case ins: (Inr new_doc')
  obtain r2 w2 where chk: "check_output_dir E output_path w = (r2, w2)"
    by (cases "check_output_dir E output_path w")
  have h2: "held w2 = held w" using check_output_dir_frame [OF chk] by simp
  show ?thesis
  proof (cases r2)
    case (Inl ex)
    with assms chk h2 ins show ?thesis by (auto simp: split_inner_def)
  next
    case (Inr u)
    with assms chk ins
    have "doc_save E new_doc' output_path w2 = (r, w')"
      by (simp add: split_inner_def)
    from doc_save_cases [OF this] h2 show ?thesis by simp
  qed
qed

lemma split_pdf_releases:
  "held (snd (split_pdf E input_file s e output_path w)) = held w"
proof (cases "files w input_file \<noteq> None \<or> dirs w input_file")
  case False
  then show ?thesis by (simp add: split_pdf_def lib_defs)
next
  case True
  let ?w1 = "snd (os_path_exists input_file w)"
  have h1: "held ?w1 = held w" by (simp add: lib_defs)
  have "held (snd (split_try E input_file s e output_path ?w1)) = held ?w1"
  proof (cases "fitz_open E input_file ?w1")
    case (Pair ro w2)
    show ?thesis
    proof (cases ro)
      case (Inl ex)
      with Pair show ?thesis
        by (auto simp: split_try_def lib_defs split: option.splits fnode.splits)
    next
      case (Inr src)
      with Pair have h2: "held w2 = SrcDoc input_file # held ?w1"
        by (auto simp: lib_defs split: option.splits fnode.splits sum.splits)
      show ?thesis
      proof (cases "validate_page_range s e (int (length src))")
        case (Some err)
        with Pair Inr h2 show ?thesis
          by (simp add: split_try_def split_with_def doc_close_def log_event_def)
      next
        case None
        obtain r3 w3 where inner:
          "split_inner E [] src s e output_path (snd (fitz_open_new w2)) = (r3, w3)"
          by (cases "split_inner E [] src s e output_path (snd (fitz_open_new w2))")
        have h3: "held w3 = NewDoc # SrcDoc input_file # held ?w1"
          using split_inner_held [OF inner] h2 by (simp add: lib_defs)
        have "snd (split_try E input_file s e output_path ?w1)
                = doc_close (SrcDoc input_file) (doc_close NewDoc w3)"
          using Pair Inr None inner by (simp add: split_try_def split_with_def fitz_open_new_def)
        then show ?thesis by (simp add: doc_close_def log_event_def h3)
      qed
    qed
  qed
  then show ?thesis using True h1
    by (auto simp: split_pdf_def os_path_exists_def split: prod.splits sum.splits)
qed

subsection \<open>The exceptions merge lets out\<close>

lemma merge_pdfs_error_kinds:
  assumes "fst (merge_pdfs E input_files output_path w) = Inl ex"
  shows "(input_files = [] \<and> ex = ValueError ''there is no input files provided to merge.'')
       \<or> (\<exists>m c. ex = RuntimeError m c)"
  using assms by (auto simp: merge_pdfs_def split: prod.splits sum.splits if_splits)

section \<open>The claims\<close>

subsection \<open>C1: a missing input file of merge\<close>

text \<open>
  C1 says that \<open>merge\<close> on a list with a missing path fails with the \<open>FileNotFound\<close> kind
  naming the first missing path, before any output is created; the docstring of
  \<^verbatim>\<open>merge_pdfs\<close> says the same (\<^verbatim>\<open>raises FileNotFoundError: if any input file does not
  exist\<close>). The code raises that \<open>FileNotFoundError\<close> inside its own \<^verbatim>\<open>try\<close>, whose
  \<^verbatim>\<open>except Exception\<close> turns it into a \<open>RuntimeError\<close>. On the list A, missing, gone the
  caller receives a \<open>RuntimeError\<close>; the \<open>FileNotFoundError\<close> naming the first missing
  path is only its cause. The rest of the claim holds there: no save is attempted, no file
  changes, the new document is closed.
\<close>

theorem merge_pdfs_missing_input_wrapped:
  "merge_pdfs example_env [''/data/A.pdf'', ''/data/missing.pdf'', ''/data/gone.pdf'']
       ''/data/out.pdf'' example_world
     = (Inl (RuntimeError ''Failed to merge PDFs: File not found: /data/missing.pdf''
               (FileNotFoundError ''File not found: /data/missing.pdf'')),
        example_world\<lparr>trace := [EvOpenNew, EvExists ''/data/A.pdf'', EvOpen ''/data/A.pdf'',
                                  EvClose (SrcDoc ''/data/A.pdf''),
                                  EvExists ''/data/missing.pdf'', EvClose NewDoc]\<rparr>)"
  by (simp add: op_defs lib_defs example_world_def insert_pdf_all)

subsection \<open>C2: a missing output directory\<close>

text \<open>
  C2 as stated (an output path whose parent directory does not exist makes the operation
  fail with a \<open>DirectoryNotFound\<close> kind distinct from the \<open>Failed\<close> kinds) does not hold:
  \<open>merge_pdfs\<close> on the existing file A and the output \<^verbatim>\<open>/nodir/out.pdf\<close> raises
  \<open>RuntimeError\<close>, the exception of a failed merge, with the directory error as its cause.
\<close>

theorem merge_pdfs_missing_dir_counterexample:
  "merge_pdfs example_env [''/data/A.pdf''] ''/nodir/out.pdf'' example_world
     = (Inl (RuntimeError ''Failed to merge PDFs: Output directory does not exist: /nodir''
               (FileNotFoundError ''Output directory does not exist: /nodir'')),
        example_world\<lparr>trace := [EvOpenNew, EvExists ''/data/A.pdf'', EvOpen ''/data/A.pdf'',
                                  EvClose (SrcDoc ''/data/A.pdf''), EvIsDir ''/nodir'',
                                  EvClose NewDoc]\<rparr>)"
  by (simp add: op_defs lib_defs example_world_def insert_pdf_all Let_def)

text \<open>
  C2, amended. In all three operations the directory check stands inside the \<^verbatim>\<open>try\<close>
  and after the steps on the inputs. When those pass (merge: a non-empty list of PDF files
  with at least one page each, since the loop has opened and inserted every source before
  the check; split: a PDF source and a valid range; convert: an existing source path)
  and the directory of the output path does not exist, the operation raises its
  \<open>RuntimeError\<close> whose message ends with, and whose cause is, the \<open>FileNotFoundError\<close>
  naming the directory. The final world is the initial one with a longer trace: no save
  or convert call was made, no file was written and no directory created, and every
  handle opened was closed.
\<close>

theorem output_dir_missing_wrapped:
  assumes nodir: "\<not> dirs w (output_dir_of E output_path)"
    and msg: "dmsg = ''Output directory does not exist: '' @ output_dir_of E output_path"
  shows "(input_files \<noteq> [] \<and> map (files w) input_files = map (\<lambda>d. Some (PdfFile d)) docs
            \<and> [] \<notin> set docs
            \<longrightarrow> merge_pdfs E input_files output_path w
                  = (Inl (RuntimeError (''Failed to merge PDFs: '' @ dmsg) (FileNotFoundError dmsg)),
                     w\<lparr>trace := trace w @ [EvOpenNew] @ loop_events input_files
                           @ [EvIsDir (output_dir_of E output_path), EvClose NewDoc]\<rparr>))
       \<and> (files w input_file = Some (PdfFile src) \<and> 1 \<le> start_page \<and> start_page \<le> end_page
            \<and> end_page \<le> int (length src)
            \<longrightarrow> split_pdf E input_file start_page end_page output_path w
                  = (Inl (RuntimeError (''Failed to split PDF: '' @ dmsg) (FileNotFoundError dmsg)),
                     w\<lparr>trace := trace w @ [EvExists input_file, EvOpen input_file, EvOpenNew,
                           EvIsDir (output_dir_of E output_path), EvClose NewDoc,
                           EvClose (SrcDoc input_file)]\<rparr>))
       \<and> (files w input_file \<noteq> None \<or> dirs w input_file
            \<longrightarrow> pdf_to_docx E input_file output_path w
                  = (Inl (RuntimeError (''Failed to convert PDF to DOCX: '' @ dmsg)
                            (FileNotFoundError dmsg)),
                     w\<lparr>trace := trace w @ [EvExists input_file,
                           EvIsDir (output_dir_of E output_path)]\<rparr>))"
proof (intro conjI impI)
  assume a: "input_files \<noteq> [] \<and> map (files w) input_files = map (\<lambda>d. Some (PdfFile d)) docs
            \<and> [] \<notin> set docs"
  then have pages: "[] \<notin> set docs" by simp
  let ?w0 = "w\<lparr>trace := trace w @ [EvOpenNew], held := NewDoc # held w\<rparr>"
  have w0: "fitz_open_new w = ([], ?w0)" by (simp add: lib_defs)
  have "map (files ?w0) input_files = map (\<lambda>d. Some (PdfFile d)) docs" using a by simp
  from merge_loop_docs [OF this pages, of E "[]"]
  have loop: "merge_loop E input_files [] ?w0
                = (Inr (concat docs), ?w0\<lparr>trace := trace ?w0 @ loop_events input_files\<rparr>)"
    by simp
  have tr: "merge_try E input_files output_path [] ?w0
               = (Inl (FileNotFoundError dmsg),
                  ?w0\<lparr>trace := trace ?w0 @ loop_events input_files
                           @ [EvIsDir (output_dir_of E output_path)]\<rparr>)"
    unfolding merge_try_def loop
    by (simp add: check_output_dir_missing nodir msg)
  show "merge_pdfs E input_files output_path w
          = (Inl (RuntimeError (''Failed to merge PDFs: '' @ dmsg) (FileNotFoundError dmsg)),
             w\<lparr>trace := trace w @ [EvOpenNew] @ loop_events input_files
                   @ [EvIsDir (output_dir_of E output_path), EvClose NewDoc]\<rparr>)"
    unfolding merge_pdfs_def w0 using a
    by (simp add: tr) (simp add: lib_defs)
next
  assume a: "files w input_file = Some (PdfFile src) \<and> 1 \<le> start_page \<and> start_page \<le> end_page
            \<and> end_page \<le> int (length src)"
  then have v: "validate_page_range start_page end_page (int (length src)) = None"
    by (simp add: validate_page_range_None)
  from a have rng: "1 \<le> start_page" "start_page \<le> end_page" "end_page \<le> int (length src)"
    by simp_all
  have inner: "\<And>nd w1. \<not> dirs w1 (output_dir_of E output_path) \<Longrightarrow>
      split_inner E nd src start_page end_page output_path w1
        = (Inl (FileNotFoundError dmsg),
           w1\<lparr>trace := trace w1 @ [EvIsDir (output_dir_of E output_path)]\<rparr>)"
    by (simp add: split_inner_def insert_pdf_range [OF rng] check_output_dir_missing msg)
  show "split_pdf E input_file start_page end_page output_path w
          = (Inl (RuntimeError (''Failed to split PDF: '' @ dmsg) (FileNotFoundError dmsg)),
             w\<lparr>trace := trace w @ [EvExists input_file, EvOpen input_file, EvOpenNew,
                   EvIsDir (output_dir_of E output_path), EvClose NewDoc,
                   EvClose (SrcDoc input_file)]\<rparr>)"
    using a
    by (simp add: split_pdf_def split_try_def split_with_def v inner nodir
        os_path_exists_def engine_pages_def fitz_open_def fitz_open_new_def doc_close_def
        log_event_def)
next
  assume a: "files w input_file \<noteq> None \<or> dirs w input_file"
  show "pdf_to_docx E input_file output_path w
          = (Inl (RuntimeError (''Failed to convert PDF to DOCX: '' @ dmsg) (FileNotFoundError dmsg)),
             w\<lparr>trace := trace w @ [EvExists input_file,
                   EvIsDir (output_dir_of E output_path)]\<rparr>)"
    using a
    by (simp add: pdf_to_docx_def pdf_to_docx_try_def check_output_dir_missing nodir msg
        os_path_exists_def log_event_def)
qed

theorem output_dir_missing_wrapped_witness:
  "\<not> dirs example_world (output_dir_of example_env ''/nodir/out.pdf'') \<and>
   fst (merge_pdfs example_env [''/data/A.pdf'', ''/data/B.pdf''] ''/nodir/out.pdf'' example_world)
     = Inl (RuntimeError ''Failed to merge PDFs: Output directory does not exist: /nodir''
              (FileNotFoundError ''Output directory does not exist: /nodir'')) \<and>
   fst (split_pdf example_env ''/data/doc.pdf'' 2 4 ''/nodir/out.pdf'' example_world)
     = Inl (RuntimeError ''Failed to split PDF: Output directory does not exist: /nodir''
              (FileNotFoundError ''Output directory does not exist: /nodir'')) \<and>
   fst (pdf_to_docx example_env ''/data/doc.pdf'' ''/nodir/out.pdf'' example_world)
     = Inl (RuntimeError ''Failed to convert PDF to DOCX: Output directory does not exist: /nodir''
              (FileNotFoundError ''Output directory does not exist: /nodir'')) \<and>
   files (snd (merge_pdfs example_env [''/data/A.pdf'', ''/data/B.pdf''] ''/nodir/out.pdf''
                 example_world)) = files example_world \<and>
   dirs (snd (merge_pdfs example_env [''/data/A.pdf'', ''/data/B.pdf''] ''/nodir/out.pdf''
                 example_world)) = dirs example_world"
  using output_dir_missing_wrapped [of example_world example_env "''/nodir/out.pdf''"
      "''Output directory does not exist: /nodir''" "[''/data/A.pdf'', ''/data/B.pdf'']"
      "[[1, 2, 3], [4, 5]]" "''/data/doc.pdf''" "[11, 12, 13, 14, 15, 16, 17, 18, 19, 20]" 2 4]
  by (simp add: example_world_def)

subsection \<open>C3: what is left at the output path\<close>

text \<open>
  C3 as stated (on any failure no file, partial or corrupt, is left at the output path)
  does not hold. The operations call the engine's \<^verbatim>\<open>save\<close> on the output path itself and
  have no clean-up: when \<^verbatim>\<open>save\<close> fails after it has begun to write, the incomplete
  file stays. Here the output path holds nothing before the merge and a damaged file
  after the merge has failed.
\<close>

theorem merge_pdfs_partial_output_counterexample:
  "files example_world ''/data/out.pdf'' = None \<and>
   fst (merge_pdfs failing_env [''/data/A.pdf'', ''/data/B.pdf''] ''/data/out.pdf'' example_world)
     = Inl (RuntimeError ''Failed to merge PDFs: No space left on device''
              (EngineError ''No space left on device'')) \<and>
   files (snd (merge_pdfs failing_env [''/data/A.pdf'', ''/data/B.pdf''] ''/data/out.pdf''
                 example_world)) ''/data/out.pdf'' = Some Damaged"
  by (simp add: op_defs lib_defs example_world_def insert_pdf_all Let_def)

text \<open>
  C3, amended. Each operation ends in one of three ways. It succeeds, and the files are
  the initial ones with exactly the output path rewritten, to the complete document. Or
  it fails and the files are exactly the initial ones. Or it fails because the engine's
  own \<^verbatim>\<open>save\<close> (for convert: \<^verbatim>\<open>convert\<close>) failed, and then the files are the initial ones
  except that the output path holds whatever the engine left there.
\<close>

theorem output_written_on_success_only_engine_residue:
  assumes m: "merge_pdfs E input_files output_path w = (rm, wm)"
    and s: "split_pdf E input_file start_page end_page output_path w = (rs, ws)"
    and c: "pdf_to_docx E input_file output_path w = (rc, wc)"
  shows "((\<exists>doc. rm = Inr () \<and> save_fault E doc output_path = None
             \<and> files wm = (files w)(output_path \<mapsto> PdfFile doc))
          \<or> (\<exists>ex. rm = Inl ex \<and> files wm = files w)
          \<or> (\<exists>doc msg left.
                rm = Inl (RuntimeError (''Failed to merge PDFs: '' @ msg) (EngineError msg))
                \<and> save_fault E doc output_path = Some (Fault msg (Some left))
                \<and> files wm = (files w)(output_path \<mapsto> left)))
       \<and> ((\<exists>doc. rs = Inr () \<and> save_fault E doc output_path = None
             \<and> files ws = (files w)(output_path \<mapsto> PdfFile doc))
          \<or> (\<exists>ex. rs = Inl ex \<and> files ws = files w)
          \<or> (\<exists>doc msg left.
                rs = Inl (RuntimeError (''Failed to split PDF: '' @ msg) (EngineError msg))
                \<and> save_fault E doc output_path = Some (Fault msg (Some left))
                \<and> files ws = (files w)(output_path \<mapsto> left)))
       \<and> ((\<exists>doc. rc = Inr () \<and> files w input_file = Some (PdfFile doc)
             \<and> convert_fault E input_file output_path = None
             \<and> files wc = (files w)(output_path \<mapsto> DocxFile doc))
          \<or> (\<exists>ex. rc = Inl ex \<and> files wc = files w)
          \<or> (\<exists>msg left.
                rc = Inl (RuntimeError (''Failed to convert PDF to DOCX: '' @ msg) (EngineError msg))
                \<and> convert_fault E input_file output_path = Some (Fault msg (Some left))
                \<and> files wc = (files w)(output_path \<mapsto> left)))"
  using merge_pdfs_files [OF m] split_pdf_files [OF s] pdf_to_docx_files [OF c]
  by (intro conjI)

theorem output_written_witness:
  "fst (merge_pdfs example_env [''/data/A.pdf'', ''/data/B.pdf''] ''/data/out.pdf'' example_world)
     = Inr () \<and>
   files (snd (merge_pdfs example_env [''/data/A.pdf'', ''/data/B.pdf''] ''/data/out.pdf''
                 example_world))
     = (files example_world)(''/data/out.pdf'' \<mapsto> PdfFile [1, 2, 3, 4, 5]) \<and>
   fst (split_pdf example_env ''/data/doc.pdf'' 0 4 ''/data/out.pdf'' example_world)
     = Inl (RuntimeError ''Failed to split PDF: Page numbers must be >= 1.''
              (ValueError ''Page numbers must be >= 1.'')) \<and>
   files (snd (split_pdf example_env ''/data/doc.pdf'' 0 4 ''/data/out.pdf'' example_world))
     = files example_world \<and>
   fst (pdf_to_docx example_env ''/data/doc.pdf'' ''/data/out.pdf'' example_world) = Inr () \<and>
   files (snd (pdf_to_docx example_env ''/data/doc.pdf'' ''/data/out.pdf'' example_world))
     = (files example_world)(''/data/out.pdf'' \<mapsto>
          DocxFile [11, 12, 13, 14, 15, 16, 17, 18, 19, 20])"
  using output_written_on_success_only_engine_residue [of example_env
      "[''/data/A.pdf'', ''/data/B.pdf'']" "''/data/out.pdf''" example_world
      "fst (merge_pdfs example_env [''/data/A.pdf'', ''/data/B.pdf''] ''/data/out.pdf'' example_world)"
      "snd (merge_pdfs example_env [''/data/A.pdf'', ''/data/B.pdf''] ''/data/out.pdf'' example_world)"
      "''/data/doc.pdf''" 0 4
      "fst (split_pdf example_env ''/data/doc.pdf'' 0 4 ''/data/out.pdf'' example_world)"
      "snd (split_pdf example_env ''/data/doc.pdf'' 0 4 ''/data/out.pdf'' example_world)"
      "fst (pdf_to_docx example_env ''/data/doc.pdf'' ''/data/out.pdf'' example_world)"
      "snd (pdf_to_docx example_env ''/data/doc.pdf'' ''/data/out.pdf'' example_world)"]
  by (simp add: op_defs lib_defs example_world_def validate_page_range_def insert_pdf_all Let_def)

subsection \<open>C4: the order of the range checks\<close>

text \<open>
  C4 says that the range validation applies three checks in a fixed order and that the
  first failure is what is reported: \<open>InvalidRange\<close> for a page number below 1, else
  \<open>InvalidRange\<close> for start > end, else \<open>RangeExceedsDocument\<close> for end > total; the
  docstring of \<^verbatim>\<open>split_pdf\<close> says \<^verbatim>\<open>raises ValueError: if page range is invalid\<close>. The
  checks stand inline in \<^verbatim>\<open>split_pdf\<close> (lines 80-87), inside its \<^verbatim>\<open>try\<close>, and they are
  applied in that order; but what the caller of \<^verbatim>\<open>split_pdf\<close> receives is never the
  \<open>ValueError\<close>: the \<^verbatim>\<open>except Exception\<close> of line 108 turns it into a \<open>RuntimeError\<close>,
  the exception of a failed split, whose cause it is. For every source that is a PDF
  with pages \<open>src\<close>:
  \<^item> start < 1 or end < 1, whatever else holds: the \<open>RuntimeError\<close> wraps ``Page numbers
    must be >= 1.'';
  \<^item> both at least 1 and start > end, whatever the page count: it wraps ``Start page
    cannot be greater than end page.'';
  \<^item> 1 \<le> start \<le> end and end > page count: it wraps ``End page e exceeds document page
    count t.'';
  \<^item> 1 \<le> start \<le> end \<le> page count: whatever \<^verbatim>\<open>split_pdf\<close> returns or raises, it is not
    a wrapped \<open>ValueError\<close>.
  In the first three cases the source is opened and closed and nothing else happens.
  The example has start 0, end 0 on a five-page document.
\<close>

theorem split_pdf_range_checks_wrapped:
  assumes src: "files w input_file = Some (PdfFile src)"
  shows "(start_page < 1 \<or> end_page < 1 \<longrightarrow>
            split_pdf E input_file start_page end_page output_path w
              = (Inl (RuntimeError ''Failed to split PDF: Page numbers must be >= 1.''
                        (ValueError ''Page numbers must be >= 1.'')),
                 w\<lparr>trace := trace w @ [EvExists input_file, EvOpen input_file,
                                         EvClose (SrcDoc input_file)]\<rparr>))
       \<and> (1 \<le> start_page \<and> 1 \<le> end_page \<and> end_page < start_page \<longrightarrow>
            split_pdf E input_file start_page end_page output_path w
              = (Inl (RuntimeError
                        ''Failed to split PDF: Start page cannot be greater than end page.''
                        (ValueError ''Start page cannot be greater than end page.'')),
                 w\<lparr>trace := trace w @ [EvExists input_file, EvOpen input_file,
                                         EvClose (SrcDoc input_file)]\<rparr>))
       \<and> (1 \<le> start_page \<and> start_page \<le> end_page \<and> int (length src) < end_page \<longrightarrow>
            split_pdf E input_file start_page end_page output_path w
              = (Inl (RuntimeError
                        (''Failed to split PDF: '' @ ''End page '' @ str_int end_page
                           @ '' exceeds document page count '' @ str_int (int (length src))
                           @ ''.'')
                        (ValueError
                           (''End page '' @ str_int end_page
                              @ '' exceeds document page count '' @ str_int (int (length src))
                              @ ''.''))),
                 w\<lparr>trace := trace w @ [EvExists input_file, EvOpen input_file,
                                         EvClose (SrcDoc input_file)]\<rparr>))
       \<and> (1 \<le> start_page \<and> start_page \<le> end_page \<and> end_page \<le> int (length src) \<longrightarrow>
            (\<forall>m v. fst (split_pdf E input_file start_page end_page output_path w)
                      \<noteq> Inl (RuntimeError m (ValueError v))))"
proof (intro conjI impI)
  assume "start_page < 1 \<or> end_page < 1"
  then have "validate_page_range start_page end_page (int (length src))
               = Some (ValueError ''Page numbers must be >= 1.'')"
    by (simp add: validate_page_range_def)
  from split_pdf_range_error [OF src this]
  show "split_pdf E input_file start_page end_page output_path w
          = (Inl (RuntimeError ''Failed to split PDF: Page numbers must be >= 1.''
                    (ValueError ''Page numbers must be >= 1.'')),
             w\<lparr>trace := trace w @ [EvExists input_file, EvOpen input_file,
                                     EvClose (SrcDoc input_file)]\<rparr>)"
    by simp
next
  assume "1 \<le> start_page \<and> 1 \<le> end_page \<and> end_page < start_page"
  then have "validate_page_range start_page end_page (int (length src))
               = Some (ValueError ''Start page cannot be greater than end page.'')"
    by (simp add: validate_page_range_def)
  from split_pdf_range_error [OF src this]
  show "split_pdf E input_file start_page end_page output_path w
          = (Inl (RuntimeError
                    ''Failed to split PDF: Start page cannot be greater than end page.''
                    (ValueError ''Start page cannot be greater than end page.'')),
             w\<lparr>trace := trace w @ [EvExists input_file, EvOpen input_file,
                                     EvClose (SrcDoc input_file)]\<rparr>)"
    by simp
next
  assume "1 \<le> start_page \<and> start_page \<le> end_page \<and> int (length src) < end_page"
  then have "validate_page_range start_page end_page (int (length src))
               = Some (ValueError (''End page '' @ str_int end_page
                    @ '' exceeds document page count '' @ str_int (int (length src)) @ ''.''))"
    by (simp add: validate_page_range_def)
  from split_pdf_range_error [OF src this]
  show "split_pdf E input_file start_page end_page output_path w
          = (Inl (RuntimeError
                    (''Failed to split PDF: '' @ ''End page '' @ str_int end_page
                       @ '' exceeds document page count '' @ str_int (int (length src))
                       @ ''.'')
                    (ValueError
                       (''End page '' @ str_int end_page
                          @ '' exceeds document page count '' @ str_int (int (length src))
                          @ ''.''))),
             w\<lparr>trace := trace w @ [EvExists input_file, EvOpen input_file,
                                     EvClose (SrcDoc input_file)]\<rparr>)"
    by simp
next
  assume a: "1 \<le> start_page \<and> start_page \<le> end_page \<and> end_page \<le> int (length src)"
  then have rng: "1 \<le> start_page" "start_page \<le> end_page" "end_page \<le> int (length src)"
    by simp_all
  have v: "validate_page_range start_page end_page (int (length src)) = None"
    using a by (simp add: validate_page_range_None)
  show "\<forall>m v. fst (split_pdf E input_file start_page end_page output_path w)
                 \<noteq> Inl (RuntimeError m (ValueError v))"
    by (auto simp: split_pdf_def split_try_def split_with_def split_inner_def v src
        insert_pdf_range [OF rng] lib_defs Let_def
        split: option.splits fault.splits)
qed

theorem split_pdf_range_checks_wrapped_witness:
  "files example_world ''/data/five.pdf'' = Some (PdfFile [21, 22, 23, 24, 25]) \<and>
   split_pdf example_env ''/data/five.pdf'' 0 0 ''/data/out.pdf'' example_world
     = (Inl (RuntimeError ''Failed to split PDF: Page numbers must be >= 1.''
               (ValueError ''Page numbers must be >= 1.'')),
        example_world\<lparr>trace := [EvExists ''/data/five.pdf'', EvOpen ''/data/five.pdf'',
                                  EvClose (SrcDoc ''/data/five.pdf'')]\<rparr>) \<and>
   fst (split_pdf example_env ''/data/five.pdf'' 0 9 ''/data/out.pdf'' example_world)
     = Inl (RuntimeError ''Failed to split PDF: Page numbers must be >= 1.''
              (ValueError ''Page numbers must be >= 1.'')) \<and>
   fst (split_pdf example_env ''/data/five.pdf'' 7 6 ''/data/out.pdf'' example_world)
     = Inl (RuntimeError ''Failed to split PDF: Start page cannot be greater than end page.''
              (ValueError ''Start page cannot be greater than end page.'')) \<and>
   fst (split_pdf example_env ''/data/five.pdf'' 1 6 ''/data/out.pdf'' example_world)
     = Inl (RuntimeError ''Failed to split PDF: End page 6 exceeds document page count 5.''
              (ValueError ''End page 6 exceeds document page count 5.''))"
  using split_pdf_range_checks_wrapped [of example_world "''/data/five.pdf''"
      "[21, 22, 23, 24, 25]" 0 0 example_env "''/data/out.pdf''"]
    split_pdf_range_checks_wrapped [of example_world "''/data/five.pdf''"
      "[21, 22, 23, 24, 25]" 0 9 example_env "''/data/out.pdf''"]
    split_pdf_range_checks_wrapped [of example_world "''/data/five.pdf''"
      "[21, 22, 23, 24, 25]" 7 6 example_env "''/data/out.pdf''"]
    split_pdf_range_checks_wrapped [of example_world "''/data/five.pdf''"
      "[21, 22, 23, 24, 25]" 1 6 example_env "''/data/out.pdf''"]
  by (simp add: example_world_def str_int_def str_nat.simps digit_char_def)

subsection \<open>C5: the extracted pages\<close>



subsection \<open>C6: merge concatenates\<close>

text \<open>
  C6 as stated (for every non-empty list of existing documents) does not hold when one
  of the documents has no pages: the engine's \<^verbatim>\<open>insert_pdf\<close> raises on such a source,
  inside the \<^verbatim>\<open>try\<close> of \<^verbatim>\<open>merge_pdfs\<close>, which has no guard for it. Merging A and the
  document without pages fails with the \<open>RuntimeError\<close> that wraps the engine's error,
  and nothing is written.
\<close>

theorem merge_pdfs_empty_source_counterexample:
  "map (files example_world) [''/data/A.pdf'', ''/data/empty.pdf'']
     = map (\<lambda>d. Some (PdfFile d)) [[1, 2, 3], []] \<and>
   dirs example_world (output_dir_of example_env ''/data/out.pdf'') \<and>
   merge_pdfs example_env [''/data/A.pdf'', ''/data/empty.pdf''] ''/data/out.pdf'' example_world
     = (Inl (RuntimeError (''Failed to merge PDFs: '' @ insert_error example_env)
               (EngineError (insert_error example_env))),
        example_world\<lparr>trace := [EvOpenNew, EvExists ''/data/A.pdf'', EvOpen ''/data/A.pdf'',
                                  EvClose (SrcDoc ''/data/A.pdf''),
                                  EvExists ''/data/empty.pdf'', EvOpen ''/data/empty.pdf'',
                                  EvClose (SrcDoc ''/data/empty.pdf''), EvClose NewDoc]\<rparr>)"
  by (simp add: op_defs lib_defs example_world_def insert_pdf_all insert_pdf_empty)

text \<open>
  C6, amended. For a non-empty list of paths that hold the PDF documents \<open>docs\<close> (in list
  order, a path that occurs twice counted twice), each with at least one page, an existing
  output directory and an engine whose \<^verbatim>\<open>save\<close> does not fail, \<open>merge_pdfs\<close> succeeds and
  writes at the output path the document whose pages are the concatenation of \<open>docs\<close>;
  no other file changes, every handle opened is closed, and the only write is the one
  save. The example merges A (3 pages) and B (2 pages) into 5 pages, A's first.
\<close>

theorem merge_pdfs_concat:
  assumes nonempty: "input_files \<noteq> []"
    and docs: "map (files w) input_files = map (\<lambda>d. Some (PdfFile d)) docs"
    and pages: "[] \<notin> set docs"
    and dir: "dirs w (output_dir_of E output_path)"
    and engine: "save_fault E (concat docs) output_path = None"
  shows "fst (merge_pdfs E input_files output_path w) = Inr ()
       \<and> files (snd (merge_pdfs E input_files output_path w))
           = (files w)(output_path \<mapsto> PdfFile (concat docs))
       \<and> held (snd (merge_pdfs E input_files output_path w)) = held w
       \<and> trace (snd (merge_pdfs E input_files output_path w))
           = trace w @ [EvOpenNew] @ loop_events input_files
               @ [EvIsDir (output_dir_of E output_path), EvSave output_path, EvClose NewDoc]
       \<and> length (concat docs) = sum_list (map length docs)"
  using merge_pdfs_ok [OF nonempty docs pages dir engine] by (simp add: length_concat)

theorem merge_pdfs_concat_witness:
  "map (files example_world) [''/data/A.pdf'', ''/data/B.pdf'']
     = map (\<lambda>d. Some (PdfFile d)) [[1, 2, 3], [4, 5]] \<and>
   dirs example_world (output_dir_of example_env ''/data/out.pdf'') \<and>
   fst (merge_pdfs example_env [''/data/A.pdf'', ''/data/B.pdf''] ''/data/out.pdf'' example_world)
     = Inr () \<and>
   files (snd (merge_pdfs example_env [''/data/A.pdf'', ''/data/B.pdf''] ''/data/out.pdf''
                 example_world)) ''/data/out.pdf''
     = Some (PdfFile [1, 2, 3, 4, 5])"
  using merge_pdfs_concat [of "[''/data/A.pdf'', ''/data/B.pdf'']" example_world
      "[[1, 2, 3], [4, 5]]" example_env "''/data/out.pdf''"]
  by (simp add: example_world_def)

subsection \<open>C7: extract all pages, then merge the extract alone\<close>

text \<open>
  C7 as stated (for every N-page document) does not hold for N = 0: on a document without
  pages the range [1, 0] is rejected by the first range check, nothing is extracted, and
  the merge of the extract fails on the missing file.
\<close>

theorem roundtrip_empty_document_counterexample:
  "files example_world ''/data/empty.pdf'' = Some (PdfFile []) \<and>
   split_pdf example_env ''/data/empty.pdf'' 1 0 ''/data/part.pdf'' example_world
     = (Inl (RuntimeError ''Failed to split PDF: Page numbers must be >= 1.''
               (ValueError ''Page numbers must be >= 1.'')),
        example_world\<lparr>trace := [EvExists ''/data/empty.pdf'', EvOpen ''/data/empty.pdf'',
                                  EvClose (SrcDoc ''/data/empty.pdf'')]\<rparr>) \<and>
   fst (merge_pdfs example_env [''/data/part.pdf''] ''/data/out.pdf''
          (snd (split_pdf example_env ''/data/empty.pdf'' 1 0 ''/data/part.pdf'' example_world)))
     = Inl (RuntimeError ''Failed to merge PDFs: File not found: /data/part.pdf''
              (FileNotFoundError ''File not found: /data/part.pdf''))"
  by (simp add: op_defs lib_defs example_world_def validate_page_range_def Let_def)

text \<open>
  C7, amended. For every document with N \<ge> 1 pages \<open>src\<close>, with existing directories for
  both output paths and an engine whose \<^verbatim>\<open>save\<close> does not fail on them, extracting the
  range [1, N] succeeds, merging the list that holds only the extracted file succeeds, and
  the merged file holds exactly the pages \<open>src\<close>: N pages in the original order.
\<close>

theorem split_then_merge_roundtrip:
  assumes src: "files w input_file = Some (PdfFile src)"
    and n: "1 \<le> int (length src)"
    and dir1: "dirs w (output_dir_of E extracted_path)"
    and dir2: "dirs w (output_dir_of E output_path)"
    and engine1: "save_fault E src extracted_path = None"
    and engine2: "save_fault E src output_path = None"
  shows "fst (split_pdf E input_file 1 (int (length src)) extracted_path w) = Inr () \<and>
         fst (merge_pdfs E [extracted_path] output_path
                (snd (split_pdf E input_file 1 (int (length src)) extracted_path w))) = Inr () \<and>
         files (snd (merge_pdfs E [extracted_path] output_path
                (snd (split_pdf E input_file 1 (int (length src)) extracted_path w)))) output_path
           = Some (PdfFile src)"
proof -
  let ?N = "int (length src)"
  let ?w1 = "snd (split_pdf E input_file 1 ?N extracted_path w)"
  have e1: "save_fault E (map (\<lambda>i. src ! nat (i - 1)) [1..?N]) extracted_path = None"
    using engine1 by (simp only: upto_pages_all)
  have sp: "split_pdf E input_file 1 ?N extracted_path w
          = (Inr (),
              w\<lparr>files := (files w)(extracted_path \<mapsto> PdfFile src),
                trace := trace w @ [EvExists input_file, EvOpen input_file, EvOpenNew,
                           EvIsDir (output_dir_of E extracted_path), EvSave extracted_path,
                           EvClose NewDoc, EvClose (SrcDoc input_file)]\<rparr>)"
    using split_pdf_ok [OF src _ n _ dir1 e1] by (simp only: upto_pages_all)
  have docs: "map (files ?w1) [extracted_path] = map (\<lambda>d. Some (PdfFile d)) [src]"
    by (simp add: sp)
  have d2: "dirs ?w1 (output_dir_of E output_path)" using dir2 by (simp add: sp)
  have e2: "save_fault E (concat [src]) output_path = None" using engine2 by simp
  have "merge_pdfs E [extracted_path] output_path ?w1
          = (Inr (),
              ?w1\<lparr>files := (files ?w1)(output_path \<mapsto> PdfFile (concat [src])),
                trace := trace ?w1 @ [EvOpenNew] @ loop_events [extracted_path]
                           @ [EvIsDir (output_dir_of E output_path), EvSave output_path,
                              EvClose NewDoc]\<rparr>)"
    using n by (intro merge_pdfs_ok [OF _ docs _ d2 e2]) auto
  then show ?thesis by (simp add: sp)
qed

theorem split_then_merge_roundtrip_witness:
  "files example_world ''/data/A.pdf'' = Some (PdfFile [1, 2, 3]) \<and>
   fst (split_pdf example_env ''/data/A.pdf'' 1 3 ''/data/part.pdf'' example_world) = Inr () \<and>
   fst (merge_pdfs example_env [''/data/part.pdf''] ''/data/out.pdf''
          (snd (split_pdf example_env ''/data/A.pdf'' 1 3 ''/data/part.pdf'' example_world)))
     = Inr () \<and>
   files (snd (merge_pdfs example_env [''/data/part.pdf''] ''/data/out.pdf''
          (snd (split_pdf example_env ''/data/A.pdf'' 1 3 ''/data/part.pdf'' example_world))))
       ''/data/out.pdf''
     = Some (PdfFile [1, 2, 3])"
  using split_then_merge_roundtrip [of example_world "''/data/A.pdf''" "[1, 2, 3]" example_env
      "''/data/part.pdf''" "''/data/out.pdf''"]
  by (simp add: example_world_def)

subsection \<open>C8: merge of an empty list\<close>

text \<open>
  C8. An empty list of input files makes \<open>merge_pdfs\<close> raise the \<open>ValueError\<close> of its first
  statement, and nothing else happens: the world comes back as it was, so no document was
  opened, no existence query made (the trace is unchanged) and nothing written.
\<close>

theorem merge_pdfs_empty_no_io:
  "merge_pdfs E [] output_path w
     = (Inl (ValueError ''there is no input files provided to merge.''), w)"
  by (simp add: merge_pdfs_def)

subsection \<open>C9: release of handles\<close>

text \<open>
  C9 says that every handle opened is released on every exit path. \<^verbatim>\<open>merge_pdfs\<close> and
  \<^verbatim>\<open>split_pdf\<close> do so (\<open>merge_pdfs_releases\<close>, \<open>split_pdf_releases\<close>: a \<^verbatim>\<open>finally\<close> and
  \<^verbatim>\<open>with\<close> blocks). \<^verbatim>\<open>pdf_to_docx\<close> calls \<^verbatim>\<open>cv.close()\<close> as a plain statement after
  \<^verbatim>\<open>cv.convert\<close>: when the conversion raises, the close is skipped. Here no handle is
  open before the call, the conversion fails, and the converter on the source is still
  held when \<^verbatim>\<open>pdf_to_docx\<close> has raised.
\<close>

theorem pdf_to_docx_leaks_converter:
  "held example_world = [] \<and>
   fst (pdf_to_docx failing_env ''/data/doc.pdf'' ''/data/out.docx'' example_world)
     = Inl (RuntimeError ''Failed to convert PDF to DOCX: conversion failed''
              (EngineError ''conversion failed'')) \<and>
   held (snd (pdf_to_docx failing_env ''/data/doc.pdf'' ''/data/out.docx'' example_world))
     = [Conv ''/data/doc.pdf'']"
  by (simp add: op_defs lib_defs example_world_def Let_def)

subsection \<open>C10: a source without pages\<close>

text \<open>
  C10. When the source is a PDF without pages, every pair (start, end) fails one of the
  range checks against the page count 0, \<open>split_pdf\<close> raises its \<open>RuntimeError\<close> with that
  error as the cause, and the final world is the initial one with three more events
  (exists, open, close): no save, no file written.
\<close>

theorem split_pdf_empty_document_fails:
  assumes src: "files w input_file = Some (PdfFile [])"
  shows "\<exists>err. validate_page_range start_page end_page 0 = Some err \<and>
           split_pdf E input_file start_page end_page output_path w
             = (Inl (RuntimeError (''Failed to split PDF: '' @ str_exc err) err),
                w\<lparr>trace := trace w @ [EvExists input_file, EvOpen input_file,
                                        EvClose (SrcDoc input_file)]\<rparr>)"
proof -
  have "validate_page_range start_page end_page 0 \<noteq> None"
    by (simp add: validate_page_range_None)
  then obtain err where err: "validate_page_range start_page end_page 0 = Some err" by auto
  then have "validate_page_range start_page end_page (int (length ([]::page list))) = Some err"
    by simp
  from split_pdf_range_error [OF src this] err show ?thesis by blast
qed

theorem split_pdf_empty_document_fails_witness:
  "files example_world ''/data/empty.pdf'' = Some (PdfFile []) \<and>
   fst (split_pdf example_env ''/data/empty.pdf'' 1 1 ''/data/part.pdf'' example_world)
     = Inl (RuntimeError ''Failed to split PDF: End page 1 exceeds document page count 0.''
              (ValueError ''End page 1 exceeds document page count 0.'')) \<and>
   files (snd (split_pdf example_env ''/data/empty.pdf'' 1 1 ''/data/part.pdf'' example_world))
     = files example_world"
  using split_pdf_empty_document_fails [of example_world "''/data/empty.pdf''" 1 1 example_env
      "''/data/part.pdf''"]
  by (simp add: example_world_def validate_page_range_def str_int_def str_nat.simps digit_char_def)

end
